theory Spec2Isabelle
  imports Complex_Main "HOL-Library.Sublist"
begin

section \<open>The annotation overlay (component PDFPage)\<close>

text \<open>
  The component keeps its annotations in four React state lists and draws on top of a
  page rendered by an external PDF library. Coordinates are JavaScript numbers; they
  are modelled as reals (no rounding, no NaN: every coordinate is a difference of
  finite client coordinates). Every handler is modelled as a function from the state it
  sees to the state React holds after the handler's updates were applied, together with
  the effects it had on the host (speech, selection, callbacks).

  A handler reads the values its render captured. React renders after a mouse down and
  after a mouse up before it handles the next event, so their handlers see each other's
  updates. The update a mouse move makes to \<open>currentPath\<close> is only queued: it is
  applied by a later render, which may come after the next event. The model keeps the
  captured \<open>currentPath\<close> and the queue of its updates apart.

  Template literals turn a number into text with the host's number formatting, which
  is no code of this repository: the handlers take it as the parameter \<open>fmt\<close>.
\<close>

subsection \<open>Data\<close>

record dom_rect =
  rc_left :: real
  rc_top :: real
  rc_width :: real
  rc_height :: real

record hl_rect =
  hr_x :: real
  hr_y :: real
  hr_width :: real
  hr_height :: real

record highlight =
  rects :: "hl_rect list"
  hl_color :: string

record pen_path =
  path :: string
  path_color :: string
  path_type :: string

record text_annotation =
  ta_x :: real
  ta_y :: real
  ta_text :: string

record shape =
  sh_type :: string
  sh_x :: real
  sh_y :: real
  sh_width :: real
  sh_height :: real
  sh_color :: string

text \<open>A loaded document: its object identity and its page count.\<close>

record pdf_doc =
  doc_ref :: nat
  numPages :: int

text \<open>The props of PDFPage. A callback is known by its identity only.\<close>

record page_props =
  prop_pdfDocument :: "pdf_doc option"
  prop_pageNumber :: int
  prop_scale :: real
  prop_activeTool :: string
  prop_highlightColor :: string
  prop_onPageRendered :: "nat option"

text \<open>
  An update of the cell \<open>currentPath\<close>: \<open>setCurrentPath(value)\<close>, or the functional
  update \<open>setCurrentPath(prev => prev + suffix)\<close>.
\<close>

datatype path_update =
    SetPath string
  | AppendPath string

fun apply_path_update :: "path_update \<Rightarrow> string \<Rightarrow> string" where
  "apply_path_update (SetPath s) prev = s"
| "apply_path_update (AppendPath s) prev = prev @ s"

text \<open>
  The state of PDFPage: its \<open>useState\<close> cells, and the text layer's spans (the
  \<open>textContent\<close> of each span, in order; their style is left out). \<open>currentPath\<close> is
  the value the last render captured, \<open>pathUpdates\<close> the updates queued since, oldest
  first.
\<close>

record page_state =
  pageSize :: "real \<times> real"
  isDrawing :: bool
  startPoint :: "real \<times> real"
  currentPath :: string
  pathUpdates :: "path_update list"
  paths :: "pen_path list"
  highlights :: "highlight list"
  selectedText :: string
  textAnnotations :: "text_annotation list"
  shapes :: "shape list"
  textLayer :: "string list"

text \<open>
  A mouse event: the client position and the bounding rectangle of the element the
  handler is attached to.
\<close>

record mouse_event =
  clientX :: real
  clientY :: real
  targetRect :: dom_rect

text \<open>
  A text selection of the host: whether it is collapsed, the client rectangles of its
  first range, and its text.
\<close>

record selection =
  isCollapsed :: bool
  clientRects :: "dom_rect list"
  selText :: string

text \<open>
  What the host answers when a handler asks: \<open>window.getSelection()\<close> (may be null),
  \<open>prompt(...)\<close> (null when cancelled), the bounding rectangle of the text layer, and
  whether speech synthesis is there.
\<close>

record host =
  getSelection :: "selection option"
  promptAnswer :: "string option"
  textLayerRect :: dom_rect
  speechSynthesis :: bool

datatype page_effect =
    RemoveAllRanges
  | SpeechCancel
  | SpeechSpeak string
  | CallPageRendered nat int string
  | ConsoleError

subsection \<open>Pointer handlers\<close>

definition pointer_xy :: "mouse_event \<Rightarrow> real \<times> real" where
  "pointer_xy e = (clientX e - rc_left (targetRect e), clientY e - rc_top (targetRect e))"

definition to_layer :: "dom_rect \<Rightarrow> dom_rect \<Rightarrow> hl_rect" where
  "to_layer container r =
     \<lparr>hr_x = rc_left r - rc_left container, hr_y = rc_top r - rc_top container,
      hr_width = rc_width r, hr_height = rc_height r\<rparr>"

definition handleTextSelection ::
  "page_props \<Rightarrow> host \<Rightarrow> selection \<Rightarrow> page_state \<Rightarrow> page_state \<times> page_effect list" where
  "handleTextSelection props h sel st =
     (let container = textLayerRect h;
          rs = map (to_layer container) (clientRects sel)
      in ((if length rs > 0
           then st\<lparr>highlights := highlights st @ [\<lparr>rects = rs, hl_color = prop_highlightColor props\<rparr>],
                   selectedText := selText sel\<rparr>
           else st),
          [RemoveAllRanges]))"

definition handleMouseDown ::
  "(real \<Rightarrow> string) \<Rightarrow> page_props \<Rightarrow> host \<Rightarrow> mouse_event \<Rightarrow> page_state
     \<Rightarrow> page_state \<times> page_effect list" where
  "handleMouseDown fmt props h e st =
     (if prop_activeTool props = [] then (st, [])
      else
        let x = fst (pointer_xy e); y = snd (pointer_xy e) in
        if prop_activeTool props = ''pen'' then
          (st\<lparr>isDrawing := True, startPoint := (x, y),
              pathUpdates := pathUpdates st @ [SetPath (''M '' @ fmt x @ '' '' @ fmt y)]\<rparr>, [])
        else if prop_activeTool props = ''highlight'' then
          (case getSelection h of
             None \<Rightarrow> (st, [])
           | Some sel \<Rightarrow>
               if \<not> isCollapsed sel then handleTextSelection props h sel st else (st, []))
        else if prop_activeTool props = ''text'' then
          (case promptAnswer h of
             None \<Rightarrow> (st, [])
           | Some t \<Rightarrow>
               if t \<noteq> []
               then (st\<lparr>textAnnotations :=
                          textAnnotations st @ [\<lparr>ta_x = x, ta_y = y, ta_text = t\<rparr>]\<rparr>, [])
               else (st, []))
        else if prop_activeTool props = ''shape'' then
          (st\<lparr>isDrawing := True, startPoint := (x, y)\<rparr>, [])
        else if prop_activeTool props = ''tts'' then
          (case getSelection h of
             None \<Rightarrow> (st, [])
           | Some sel \<Rightarrow>
               if \<not> isCollapsed sel \<and> speechSynthesis h
               then (if selText sel \<noteq> []
                     then (st, [SpeechCancel, SpeechSpeak (selText sel)])
                     else (st, []))
               else (st, []))
        else (st, []))"

definition handleMouseMove ::
  "(real \<Rightarrow> string) \<Rightarrow> page_props \<Rightarrow> mouse_event \<Rightarrow> page_state \<Rightarrow> page_state" where
  "handleMouseMove fmt props e st =
     (if \<not> isDrawing st \<or> prop_activeTool props = [] then st
      else
        let x = fst (pointer_xy e); y = snd (pointer_xy e) in
        if prop_activeTool props = ''pen'' then
          st\<lparr>pathUpdates := pathUpdates st @ [AppendPath ('' L '' @ fmt x @ '' '' @ fmt y)]\<rparr>
        else st)"

definition handleMouseUp :: "page_props \<Rightarrow> mouse_event \<Rightarrow> page_state \<Rightarrow> page_state" where
  "handleMouseUp props e st =
     (if prop_activeTool props = [] \<or> \<not> isDrawing st then st
      else
        let x = fst (pointer_xy e); y = snd (pointer_xy e);
            st1 =
              (if prop_activeTool props = ''pen'' then
                 st\<lparr>paths := paths st @
                      [\<lparr>path = currentPath st, path_color = prop_highlightColor props,
                        path_type = ''pen''\<rparr>],
                    pathUpdates := pathUpdates st @ [SetPath []]\<rparr>
               else if prop_activeTool props = ''shape'' then
                 (let w = \<bar>x - fst (startPoint st)\<bar>;
                      ht = \<bar>y - snd (startPoint st)\<bar>;
                      l = min x (fst (startPoint st));
                      t = min y (snd (startPoint st))
                  in st\<lparr>shapes := shapes st @
                       [\<lparr>sh_type = ''rectangle'', sh_x = l, sh_y = t, sh_width = w,
                         sh_height = ht, sh_color = prop_highlightColor props\<rparr>]\<rparr>)
               else st)
        in st1\<lparr>isDrawing := False\<rparr>)"

text \<open>A render applies the queued updates in order; the handlers capture the result.\<close>

definition commit :: "page_state \<Rightarrow> page_state" where
  "commit st =
     st\<lparr>currentPath := foldl (\<lambda>prev u. apply_path_update u prev) (currentPath st) (pathUpdates st),
        pathUpdates := []\<rparr>"

text \<open>
  The events of one page view, each with the props and the host's answers at the
  moment it is handled, and the state after a sequence of them. A mouse down and a
  mouse up are followed by a render; a mouse move is not: the render that applies its
  update is the event \<open>Render\<close>, which may or may not come before the next pointer
  event.
\<close>

datatype pointer_event =
    MouseDown host mouse_event
  | MouseMove mouse_event
  | MouseUp mouse_event
  | Render

fun dispatch :: "(real \<Rightarrow> string) \<Rightarrow> page_props \<Rightarrow> pointer_event \<Rightarrow> page_state \<Rightarrow> page_state" where
  "dispatch fmt props (MouseDown h e) st = commit (fst (handleMouseDown fmt props h e st))"
| "dispatch fmt props (MouseMove e) st = handleMouseMove fmt props e st"
| "dispatch fmt props (MouseUp e) st = commit (handleMouseUp props e st)"
| "dispatch fmt props Render st = commit st"

fun run_events ::
  "(real \<Rightarrow> string) \<Rightarrow> (page_props \<times> pointer_event) list \<Rightarrow> page_state \<Rightarrow> page_state" where
  "run_events fmt [] st = st"
| "run_events fmt ((props, ev) # evs) st = run_events fmt evs (dispatch fmt props ev st)"

subsection \<open>Rendering a page\<close>

text \<open>
  The PDF library is outside the repository. What it can answer to the calls of
  \<open>renderPage\<close> is one of: \<open>getPage\<close> rejects; the page and its viewport (width,
  height) are there but \<open>render\<close> rejects; rendering succeeds but \<open>getTextContent\<close>
  rejects; everything succeeds and the text content's items are returned.
\<close>

datatype text_content_item =
    TextItem (str: string)
  | TextMarkedContent

datatype page_load =
    GetPageFails
  | RenderFails real real
  | TextContentFails real real
  | Rendered real real "text_content_item list"

type_synonym pdf_lib = "pdf_doc \<Rightarrow> int \<Rightarrow> real \<Rightarrow> page_load"

text \<open>
  \<open>renderPage\<close> is asynchronous. The model gives the state and the effects once it
  has run to its end, with no other handler of the component running in between; the
  same holds for \<open>loadPDF\<close> and \<open>handleQuerySubmit\<close> below.
\<close>

text \<open>Whether \<open>canvasRef.current\<close> and \<open>textLayerRef.current\<close> are set.\<close>

record dom_refs =
  canvasRef :: bool
  textLayerRef :: bool

text \<open>
  The \<open>forEach\<close> over the text items: the accumulator is the page text so far and
  the spans appended to the text layer so far. Only items with a \<open>str\<close> take part.
\<close>

fun collect_text ::
  "text_content_item list \<Rightarrow> string \<times> string list \<Rightarrow> string \<times> string list" where
  "collect_text [] acc = acc"
| "collect_text (TextItem s # items) (pageText, layer) =
     collect_text items (pageText @ s @ '' '', layer @ [s])"
| "collect_text (TextMarkedContent # items) acc = collect_text items acc"

definition renderPage ::
  "pdf_lib \<Rightarrow> dom_refs \<Rightarrow> page_props \<Rightarrow> page_state \<Rightarrow> page_state \<times> page_effect list" where
  "renderPage lib refs props st =
     (case prop_pdfDocument props of
        None \<Rightarrow> (st, [])
      | Some d \<Rightarrow>
          if \<not> canvasRef refs \<or> \<not> textLayerRef refs then (st, [])
          else
            let st1 = st\<lparr>textLayer := [], highlights := [], paths := [],
                         textAnnotations := [], shapes := []\<rparr>
            in (case lib d (prop_pageNumber props) (prop_scale props) of
                  GetPageFails \<Rightarrow> (st1, [ConsoleError])
                | RenderFails vw vh \<Rightarrow> (st1\<lparr>pageSize := (vw, vh)\<rparr>, [ConsoleError])
                | TextContentFails vw vh \<Rightarrow> (st1\<lparr>pageSize := (vw, vh)\<rparr>, [ConsoleError])
                | Rendered vw vh items \<Rightarrow>
                    (let r = collect_text items ([], textLayer st1)
                     in (st1\<lparr>pageSize := (vw, vh), textLayer := snd r\<rparr>,
                         (case prop_onPageRendered props of
                            None \<Rightarrow> []
                          | Some cb \<Rightarrow> [CallPageRendered cb (prop_pageNumber props) (fst r)])))))"

text \<open>
  The effect that calls \<open>renderPage\<close> has the dependencies \<open>pdfDocument\<close>,
  \<open>pageNumber\<close>, \<open>scale\<close> and \<open>onPageRendered\<close>; objects and functions are compared by
  identity. It runs after a render whose props differ from the previous ones in one of
  them.
\<close>

definition deps_changed :: "page_props \<Rightarrow> page_props \<Rightarrow> bool" where
  "deps_changed old new =
     (map_option doc_ref (prop_pdfDocument old) \<noteq> map_option doc_ref (prop_pdfDocument new)
      \<or> prop_pageNumber old \<noteq> prop_pageNumber new
      \<or> prop_scale old \<noteq> prop_scale new
      \<or> prop_onPageRendered old \<noteq> prop_onPageRendered new)"

definition rerender ::
  "pdf_lib \<Rightarrow> dom_refs \<Rightarrow> page_props \<Rightarrow> page_props \<Rightarrow> page_state
     \<Rightarrow> page_state \<times> page_effect list" where
  "rerender lib refs old new st =
     (if deps_changed old new then renderPage lib refs new st else (st, []))"

text \<open>
  The spec describes a Path as an ordered sequence of points. The component stores it
  as SVG path data; \<open>path_of_points\<close> is the path data of a sequence of points: a
  move to the first point, then a line to each further point.
\<close>

definition line_to :: "(real \<Rightarrow> string) \<Rightarrow> real \<times> real \<Rightarrow> string" where
  "line_to fmt q = '' L '' @ fmt (fst q) @ '' '' @ fmt (snd q)"

fun path_of_points :: "(real \<Rightarrow> string) \<Rightarrow> (real \<times> real) list \<Rightarrow> string" where
  "path_of_points fmt [] = []"
| "path_of_points fmt (p # ps) =
     ''M '' @ fmt (fst p) @ '' '' @ fmt (snd p) @ concat (map (line_to fmt) ps)"

text \<open>A run of mouse moves, each with the props at its moment, as events.\<close>

definition as_moves :: "(page_props \<times> mouse_event) list \<Rightarrow> (page_props \<times> pointer_event) list" where
  "as_moves ms = map (\<lambda>pm. (fst pm, MouseMove (snd pm))) ms"

text \<open>What one handler may do to one list: nothing, or append one entity.\<close>

definition appended_one :: "'a list \<Rightarrow> 'a list \<Rightarrow> bool" where
  "appended_one xs ys = (length ys = Suc (length xs) \<and> take (length xs) ys = xs)"

definition lists_step :: "page_state \<Rightarrow> page_state \<Rightarrow> bool" where
  "lists_step st st' =
     ((highlights st' = highlights st \<and> paths st' = paths st
         \<and> textAnnotations st' = textAnnotations st \<and> shapes st' = shapes st)
      \<or> (appended_one (highlights st) (highlights st') \<and> paths st' = paths st
         \<and> textAnnotations st' = textAnnotations st \<and> shapes st' = shapes st)
      \<or> (highlights st' = highlights st \<and> appended_one (paths st) (paths st')
         \<and> textAnnotations st' = textAnnotations st \<and> shapes st' = shapes st)
      \<or> (highlights st' = highlights st \<and> paths st' = paths st
         \<and> appended_one (textAnnotations st) (textAnnotations st') \<and> shapes st' = shapes st)
      \<or> (highlights st' = highlights st \<and> paths st' = paths st
         \<and> textAnnotations st' = textAnnotations st \<and> appended_one (shapes st) (shapes st')))"

section \<open>The viewer (component PDFViewer)\<close>

record viewer_state =
  pdfDocument :: "pdf_doc option"
  totalPages :: int
  currentPage :: int
  scale :: real
  activeTab :: string
  activeTool :: string
  highlightColor :: string
  isAIOpen :: bool
  pageTexts :: "int \<Rightarrow> string option"

definition initial_viewer :: viewer_state where
  "initial_viewer =
     \<lparr>pdfDocument = None, totalPages = 0, currentPage = 1, scale = 1.5,
      activeTab = ''view'', activeTool = [], highlightColor = ''#FEF7CD'',
      isAIOpen = False, pageTexts = Map.empty\<rparr>"

record toast =
  title :: string
  description :: string
  destructive :: bool

text \<open>
  A chosen file: its name, and what reading and parsing it yields (\<open>None\<close> when
  \<open>arrayBuffer\<close> or \<open>getDocument\<close> rejects).
\<close>

record pdf_file =
  file_name :: string
  file_load :: "pdf_doc option"

datatype viewer_effect =
    ShowToast toast
  | LogError

definition loadPDF ::
  "(int \<Rightarrow> string) \<Rightarrow> pdf_file \<Rightarrow> viewer_state \<Rightarrow> viewer_state \<times> viewer_effect list" where
  "loadPDF fmti file v =
     (case file_load file of
        Some pdf \<Rightarrow>
          (v\<lparr>pdfDocument := Some pdf, totalPages := numPages pdf, currentPage := 1\<rparr>,
           [ShowToast
              \<lparr>title = ''PDF Loaded'',
               description = ''Successfully loaded '' @ [CHR 0x22] @ file_name file @ [CHR 0x22]
                  @ '' ('' @ fmti (numPages pdf) @ '' pages)'',
               destructive = False\<rparr>])
      | None \<Rightarrow>
          (v, [LogError,
               ShowToast
                 \<lparr>title = ''Error'',
                  description = ''Failed to load PDF file. Please try another file.'',
                  destructive = True\<rparr>]))"

definition goToPage :: "int \<Rightarrow> viewer_state \<Rightarrow> viewer_state" where
  "goToPage pageNum v =
     (if pageNum \<ge> 1 \<and> pageNum \<le> totalPages v then v\<lparr>currentPage := pageNum\<rparr> else v)"

definition handlePreviousPage :: "viewer_state \<Rightarrow> viewer_state" where
  "handlePreviousPage v = goToPage (currentPage v - 1) v"

definition handleNextPage :: "viewer_state \<Rightarrow> viewer_state" where
  "handleNextPage v = goToPage (currentPage v + 1) v"

definition handleZoomIn :: "viewer_state \<Rightarrow> viewer_state" where
  "handleZoomIn v = v\<lparr>scale := min (scale v + 0.2) 3\<rparr>"

definition handleZoomOut :: "viewer_state \<Rightarrow> viewer_state" where
  "handleZoomOut v = v\<lparr>scale := max (scale v - 0.2) 0.5\<rparr>"

text \<open>
  \<open>handlePageRendered\<close> stores the text and forwards the call to the viewer's own
  optional callback \<open>onPageRender\<close> (known by its identity).
\<close>

definition handlePageRendered ::
  "nat option \<Rightarrow> int \<Rightarrow> string \<Rightarrow> viewer_state \<Rightarrow> viewer_state \<times> (nat \<times> int \<times> string) list" where
  "handlePageRendered onPageRender pageNumber textContent v =
     (v\<lparr>pageTexts := (pageTexts v)(pageNumber \<mapsto> textContent)\<rparr>,
      (case onPageRender of None \<Rightarrow> [] | Some cb \<Rightarrow> [(cb, pageNumber, textContent)]))"

definition getCurrentPageText :: "viewer_state \<Rightarrow> string" where
  "getCurrentPageText v = (case pageTexts v (currentPage v) of None \<Rightarrow> [] | Some t \<Rightarrow> t)"

definition handleToggleAI :: "viewer_state \<Rightarrow> viewer_state" where
  "handleToggleAI v = v\<lparr>isAIOpen := \<not> isAIOpen v\<rparr>"

text \<open>The page input's \<open>parseInt(value) || 1\<close>; \<open>None\<close> is NaN.\<close>

definition page_input :: "int option \<Rightarrow> int" where
  "page_input r = (case r of None \<Rightarrow> 1 | Some n \<Rightarrow> if n = 0 then 1 else n)"

text \<open>
  The children the viewer renders: PDFPage when a document is there (\<open>cb\<close> is the
  identity of this render's \<open>handlePageRendered\<close>), and the assistant when it is open.
\<close>

definition page_props_of :: "nat \<Rightarrow> viewer_state \<Rightarrow> page_props option" where
  "page_props_of cb v =
     (case pdfDocument v of
        None \<Rightarrow> None
      | Some d \<Rightarrow>
          Some \<lparr>prop_pdfDocument = Some d, prop_pageNumber = currentPage v,
                prop_scale = scale v, prop_activeTool = activeTool v,
                prop_highlightColor = highlightColor v, prop_onPageRendered = Some cb\<rparr>)"

record ai_props =
  ai_pageText :: string
  ai_currentPage :: int
  ai_totalPages :: int

definition ai_props_of :: "viewer_state \<Rightarrow> ai_props option" where
  "ai_props_of v =
     (if isAIOpen v
      then Some \<lparr>ai_pageText = getCurrentPageText v, ai_currentPage = currentPage v,
                 ai_totalPages = totalPages v\<rparr>
      else None)"

text \<open>The user's actions on the viewer, and the callback from the page.\<close>

datatype viewer_event =
    FileChosen pdf_file
  | PageInput "int option"
  | PreviousPage
  | NextPage
  | ZoomIn
  | ZoomOut
  | SliderChanged real
  | TabChanged string
  | ToolClicked string
  | ColorClicked string
  | ToggleAI
  | CloseAI
  | PageRendered int string

fun viewer_step :: "(int \<Rightarrow> string) \<Rightarrow> viewer_event \<Rightarrow> viewer_state \<Rightarrow> viewer_state" where
  "viewer_step fmti (FileChosen f) v = fst (loadPDF fmti f v)"
| "viewer_step fmti (PageInput r) v = goToPage (page_input r) v"
| "viewer_step fmti PreviousPage v = handlePreviousPage v"
| "viewer_step fmti NextPage v = handleNextPage v"
| "viewer_step fmti ZoomIn v = handleZoomIn v"
| "viewer_step fmti ZoomOut v = handleZoomOut v"
| "viewer_step fmti (SliderChanged x) v = v\<lparr>scale := x / 100\<rparr>"
| "viewer_step fmti (TabChanged t) v = v\<lparr>activeTab := t\<rparr>"
| "viewer_step fmti (ToolClicked t) v = v\<lparr>activeTool := (if activeTool v = t then [] else t)\<rparr>"
| "viewer_step fmti (ColorClicked c) v = v\<lparr>highlightColor := c\<rparr>"
| "viewer_step fmti ToggleAI v = handleToggleAI v"
| "viewer_step fmti CloseAI v = v\<lparr>isAIOpen := False\<rparr>"
| "viewer_step fmti (PageRendered p t) v = fst (handlePageRendered None p t v)"

fun run_viewer :: "(int \<Rightarrow> string) \<Rightarrow> viewer_event list \<Rightarrow> viewer_state \<Rightarrow> viewer_state" where
  "run_viewer fmti [] v = v"
| "run_viewer fmti (ev # evs) v = run_viewer fmti evs (viewer_step fmti ev v)"

text \<open>The current page is a page of the document.\<close>

definition page_in_range :: "viewer_state \<Rightarrow> bool" where
  "page_in_range v = (1 \<le> currentPage v \<and> currentPage v \<le> totalPages v)"

text \<open>Every file chosen in a sequence of events that loads has at least one page.\<close>

fun loads_have_pages :: "viewer_event list \<Rightarrow> bool" where
  "loads_have_pages [] = True"
| "loads_have_pages (FileChosen f # evs) =
     ((case file_load f of None \<Rightarrow> True | Some pdf \<Rightarrow> 1 \<le> numPages pdf) \<and> loads_have_pages evs)"
| "loads_have_pages (ev # evs) = loads_have_pages evs"

section \<open>The assistant (component AIAssistant)\<close>

record ai_state =
  query :: string
  response :: string
  isLoading :: bool
  ai_activeTab :: string

text \<open>
  What a submission does, in order: state updates, and the wait on a timer (in
  milliseconds).
\<close>

datatype ai_action =
    SetIsLoading bool
  | AwaitTimeout nat
  | SetResponse string

text \<open>
  \<open>String.prototype.trim\<close> on strings of 8-bit code units: the white space and line
  terminators below 256.
\<close>

definition is_js_space :: "char \<Rightarrow> bool" where
  "is_js_space c = (of_char c \<in> {9, 10, 11, 12, 13, 32, 160 :: nat})"

definition js_trim :: "string \<Rightarrow> string" where
  "js_trim s = rev (dropWhile is_js_space (rev (dropWhile is_js_space s)))"

text \<open>The text that \<open>mockAIResponse\<close> builds in its variable \<open>mockResponse\<close>.\<close>

definition mockResponse :: "(int \<Rightarrow> string) \<Rightarrow> int \<Rightarrow> string \<Rightarrow> string \<Rightarrow> string" where
  "mockResponse fmti page q tab =
     (if tab = ''summary'' then
        ''## Summary of page '' @ fmti page @
        '':\<newline>\<newline>This is a simulated AI summary of the text. In a real implementation, this would use the OpenAI API or another AI service to generate an actual summary of the document content.\<newline>\<newline>The summary would highlight key points from the page content, main topics, and important details.''
      else if tab = ''ask'' then
        ''Based on the document content, here'' @ [CHR 0x27] @ ''s the answer to your question:\<newline>\<newline>'' @
        (if q \<noteq> [] then [CHR 0x22] @ q @ [CHR 0x22] @ ''\<newline>\<newline>'' else []) @
        ''This is a simulated AI response. In a real implementation, this would provide an answer based on the actual content of the PDF using an AI service like OpenAI'' @ [CHR 0x27] @ ''s GPT.''
      else if tab = ''translate'' then
        ''Translated text ('' @ (if q \<noteq> [] then q else ''French'') @
        ''):\<newline>\<newline>This is a simulated translation. In a real implementation, this would provide an actual translation of the selected text using an AI service.''
      else
        ''I don'' @ [CHR 0x27] @ ''t understand that request. Please try again.'')"

text \<open>
  \<open>mockAIResponse\<close> waits on a timer of 1000 milliseconds and sets the response. It
  reads the page number and the query of the render it was created in, and never its
  argument \<open>prompt\<close>.
\<close>

definition mockAIResponse ::
  "(int \<Rightarrow> string) \<Rightarrow> ai_props \<Rightarrow> ai_state \<Rightarrow> string \<Rightarrow> string \<Rightarrow> ai_action list" where
  "mockAIResponse fmti props st prompt tab =
     [AwaitTimeout 1000, SetResponse (mockResponse fmti (ai_currentPage props) (query st) tab)]"

text \<open>
  \<open>handleQuerySubmit\<close>: nothing in \<open>mockAIResponse\<close> can throw, so the \<open>catch\<close>
  branch is never taken and the \<open>finally\<close> block runs after the response is set.
\<close>

definition handleQuerySubmit ::
  "(int \<Rightarrow> string) \<Rightarrow> ai_props \<Rightarrow> ai_state \<Rightarrow> ai_action list" where
  "handleQuerySubmit fmti props st =
     (if js_trim (query st) = [] \<and> ai_activeTab st \<noteq> ''summary'' then []
      else
        [SetIsLoading True] @
        (let prompt =
           (if ai_activeTab st = ''summary'' then
              ''Summarize the following text in a concise way:\<newline>'' @ ai_pageText props
            else if ai_activeTab st = ''ask'' then
              ''Answer this question based on the text: '' @ query st @
              ''\<newline>\<newline>Text: '' @ ai_pageText props
            else if ai_activeTab st = ''translate'' then
              ''Translate the following text to '' @
              (if query st \<noteq> [] then query st else ''French'') @ '':\<newline>'' @
              ai_pageText props
            else query st)
         in mockAIResponse fmti props st prompt (ai_activeTab st)) @
        [SetIsLoading False])"

fun apply_action :: "ai_action \<Rightarrow> ai_state \<Rightarrow> ai_state" where
  "apply_action (SetIsLoading b) st = st\<lparr>isLoading := b\<rparr>"
| "apply_action (AwaitTimeout ms) st = st"
| "apply_action (SetResponse r) st = st\<lparr>response := r\<rparr>"

fun run_actions :: "ai_action list \<Rightarrow> ai_state \<Rightarrow> ai_state" where
  "run_actions [] st = st"
| "run_actions (a # as) st = run_actions as (apply_action a st)"

text \<open>The time waited before the first response of a trace is set, if one is set.\<close>

fun delay_before_response :: "ai_action list \<Rightarrow> nat option" where
  "delay_before_response [] = None"
| "delay_before_response (SetResponse r # as) = Some 0"
| "delay_before_response (AwaitTimeout ms # as) = map_option (\<lambda>d. ms + d) (delay_before_response as)"
| "delay_before_response (SetIsLoading b # as) = delay_before_response as"

section \<open>The components together\<close>

text \<open>
  The viewer passes \<open>handlePageRendered\<close> as the page's \<open>onPageRendered\<close>: every
  call of the callback among the effects of the page reaches the viewer.
\<close>

fun deliver :: "nat option \<Rightarrow> page_effect list \<Rightarrow> viewer_state \<Rightarrow> viewer_state" where
  "deliver opr [] v = v"
| "deliver opr (CallPageRendered cb p t # effs) v =
     deliver opr effs (fst (handlePageRendered opr p t v))"
| "deliver opr (eff # effs) v = deliver opr effs v"

text \<open>
  The page text as the spec describes it: each text item's string followed by one
  space, in document order.
\<close>

definition page_text_of :: "text_content_item list \<Rightarrow> string" where
  "page_text_of items =
     concat (map (\<lambda>i. case i of TextItem s \<Rightarrow> s @ '' '' | TextMarkedContent \<Rightarrow> []) items)"

section \<open>Concrete inputs\<close>

text \<open>The state PDFPage starts in (the initial values of its \<open>useState\<close> cells).\<close>

definition initial_page :: page_state where
  "initial_page =
     \<lparr>pageSize = (0, 0), isDrawing = False, startPoint = (0, 0), currentPath = [],
      pathUpdates = [],
      paths = [], highlights = [], selectedText = [], textAnnotations = [], shapes = [],
      textLayer = []\<rparr>"

definition sample_doc :: pdf_doc where
  "sample_doc = \<lparr>doc_ref = 7, numPages = 3\<rparr>"

definition sample_props :: "string \<Rightarrow> string \<Rightarrow> page_props" where
  "sample_props tool color =
     \<lparr>prop_pdfDocument = Some sample_doc, prop_pageNumber = 2, prop_scale = 1.5,
      prop_activeTool = tool, prop_highlightColor = color, prop_onPageRendered = Some 4\<rparr>"

definition sample_rect :: dom_rect where
  "sample_rect = \<lparr>rc_left = 10, rc_top = 10, rc_width = 600, rc_height = 800\<rparr>"

definition mouse_at :: "real \<Rightarrow> real \<Rightarrow> mouse_event" where
  "mouse_at cx cy = \<lparr>clientX = cx, clientY = cy, targetRect = sample_rect\<rparr>"

definition sample_selection :: selection where
  "sample_selection =
     \<lparr>isCollapsed = False,
      clientRects = [\<lparr>rc_left = 30, rc_top = 50, rc_width = 100, rc_height = 12\<rparr>],
      selText = ''abc''\<rparr>"

definition sample_host :: host where
  "sample_host =
     \<lparr>getSelection = Some sample_selection, promptAnswer = Some ''note'',
      textLayerRect = sample_rect, speechSynthesis = True\<rparr>"

definition sample_refs :: dom_refs where
  "sample_refs = \<lparr>canvasRef = True, textLayerRef = True\<rparr>"

definition sample_lib :: pdf_lib where
  "sample_lib d n s =
     (if 1 \<le> n \<and> n \<le> numPages d
      then Rendered (612 * s) (792 * s) [TextItem ''Hello'', TextMarkedContent, TextItem ''world'']
      else GetPageFails)"

definition sample_fmt :: "real \<Rightarrow> string" where
  "sample_fmt r = (if r = 20 then ''20'' else if r = 30 then ''30'' else ''0'')"

definition sample_fmti :: "int \<Rightarrow> string" where
  "sample_fmti n = (if n = 2 then ''2'' else if n = 3 then ''3'' else ''1'')"

definition sample_shape :: shape where
  "sample_shape =
     \<lparr>sh_type = ''rectangle'', sh_x = 5, sh_y = 30, sh_width = 15, sh_height = 20,
      sh_color = ''#FEF7CD''\<rparr>"

definition sample_file :: pdf_file where
  "sample_file = \<lparr>file_name = ''a.pdf'', file_load = Some sample_doc\<rparr>"

definition sample_ai_props :: "string \<Rightarrow> ai_props" where
  "sample_ai_props t = \<lparr>ai_pageText = t, ai_currentPage = 2, ai_totalPages = 3\<rparr>"

definition sample_ai_state :: "string \<Rightarrow> string \<Rightarrow> ai_state" where
  "sample_ai_state tab q = \<lparr>query = q, response = [], isLoading = False, ai_activeTab = tab\<rparr>"

section \<open>Properties of the overlay\<close>

subsection \<open>What the handlers leave alone\<close>

lemma move_frame:
  "isDrawing (handleMouseMove fmt props e st) = isDrawing st"
  "startPoint (handleMouseMove fmt props e st) = startPoint st"
  "highlights (handleMouseMove fmt props e st) = highlights st"
  "paths (handleMouseMove fmt props e st) = paths st"
  "textAnnotations (handleMouseMove fmt props e st) = textAnnotations st"
  "shapes (handleMouseMove fmt props e st) = shapes st"
  by (simp_all add: handleMouseMove_def Let_def)

lemma moves_frame:
  "isDrawing (run_events fmt (as_moves ms) st) = isDrawing st
   \<and> startPoint (run_events fmt (as_moves ms) st) = startPoint st
   \<and> highlights (run_events fmt (as_moves ms) st) = highlights st
   \<and> paths (run_events fmt (as_moves ms) st) = paths st
   \<and> textAnnotations (run_events fmt (as_moves ms) st) = textAnnotations st
   \<and> shapes (run_events fmt (as_moves ms) st) = shapes st"
  by (induction ms arbitrary: st) (simp_all add: as_moves_def move_frame)

lemma commit_frame:
  "isDrawing (commit st) = isDrawing st"
  "startPoint (commit st) = startPoint st"
  "highlights (commit st) = highlights st"
  "paths (commit st) = paths st"
  "textAnnotations (commit st) = textAnnotations st"
  "shapes (commit st) = shapes st"
  "pathUpdates (commit st) = []"
  by (simp_all add: commit_def)

lemma commit_after_set:
  "pathUpdates st = us @ [SetPath s] \<Longrightarrow> currentPath (commit st) = s"
  by (simp add: commit_def)

lemma commit_appends:
  "foldl (\<lambda>prev u. apply_path_update u prev) p (map (\<lambda>x. AppendPath (g x)) xs)
     = p @ concat (map g xs)"
  by (induction xs arbitrary: p) simp_all

lemma pen_moves_queue:
  "isDrawing st \<Longrightarrow> \<forall>pm \<in> set ms. prop_activeTool (fst pm) = ''pen'' \<Longrightarrow>
   run_events fmt (as_moves ms) st =
     st\<lparr>pathUpdates := pathUpdates st @
          map (\<lambda>pm. AppendPath (line_to fmt (pointer_xy (snd pm)))) ms\<rparr>"
proof (induction ms arbitrary: st)
  case Nil
  then show ?case by (simp add: as_moves_def)
next
  case (Cons pm ms)
  let ?s = "handleMouseMove fmt (fst pm) (snd pm) st"
  have s: "?s = st\<lparr>pathUpdates := pathUpdates st @ [AppendPath (line_to fmt (pointer_xy (snd pm)))]\<rparr>"
    using Cons.prems by (simp add: handleMouseMove_def Let_def line_to_def)
  have d: "isDrawing ?s"
    using Cons.prems(1) by (simp add: move_frame)
  have "run_events fmt (as_moves (pm # ms)) st = run_events fmt (as_moves ms) ?s"
    by (simp add: as_moves_def)
  also have "\<dots> = ?s\<lparr>pathUpdates := pathUpdates ?s @
      map (\<lambda>pm. AppendPath (line_to fmt (pointer_xy (snd pm)))) ms\<rparr>"
    using Cons.IH[OF d] Cons.prems(2) by simp
  finally show ?case by (simp add: s)
qed

lemma appended_one_snoc: "appended_one xs (xs @ [x])"
  by (simp add: appended_one_def)

lemma text_selection_step: "lists_step st (fst (handleTextSelection props h sel st))"
  by (simp add: handleTextSelection_def lists_step_def appended_one_snoc Let_def)

lemma mouse_down_step: "lists_step st (fst (handleMouseDown fmt props h e st))"
proof (cases "prop_activeTool props = ''highlight''")
  case True
  then show ?thesis
    using text_selection_step[of st props h]
    by (auto simp: handleMouseDown_def lists_step_def split: option.splits)
next
  case False
  then show ?thesis
    by (auto simp: handleMouseDown_def lists_step_def appended_one_snoc Let_def
        split: option.splits)
qed

lemma mouse_move_step: "lists_step st (handleMouseMove fmt props e st)"
  by (simp add: lists_step_def move_frame)

lemma mouse_up_step: "lists_step st (handleMouseUp props e st)"
  by (simp add: handleMouseUp_def lists_step_def appended_one_snoc Let_def)

lemma appended_one_prefix: "appended_one xs ys \<Longrightarrow> prefix xs ys"
  unfolding appended_one_def by (metis take_is_prefix)

lemma lists_step_prefix:
  assumes "lists_step st st'"
  shows "prefix (highlights st) (highlights st')" "prefix (paths st) (paths st')"
    "prefix (textAnnotations st) (textAnnotations st')" "prefix (shapes st) (shapes st')"
  using assms unfolding lists_step_def by (auto dest: appended_one_prefix)

lemma commit_step: "lists_step st st' \<Longrightarrow> lists_step st (commit st')"
  by (simp add: lists_step_def commit_frame)

lemma lists_step_refl: "lists_step st st"
  by (simp add: lists_step_def)

lemma dispatch_step: "lists_step st (dispatch fmt props ev st)"
  by (cases ev)
    (simp_all add: mouse_down_step mouse_move_step mouse_up_step commit_step lists_step_refl)

lemma run_events_prefix:
  "prefix (highlights st) (highlights (run_events fmt evs st))
   \<and> prefix (paths st) (paths (run_events fmt evs st))
   \<and> prefix (textAnnotations st) (textAnnotations (run_events fmt evs st))
   \<and> prefix (shapes st) (shapes (run_events fmt evs st))"
proof (induction evs arbitrary: st)
  case Nil
  then show ?case by simp
next
  case (Cons pe evs)
  obtain props ev where pe: "pe = (props, ev)" by (cases pe)
  let ?s = "dispatch fmt props ev st"
  note one = lists_step_prefix[OF dispatch_step[of st fmt props ev]]
  note rest = Cons.IH[of ?s]
  show ?case
    using one rest by (auto simp: pe intro: prefix_order.trans)
qed

text \<open>
  C1. Each pointer handler (mouse down, mouse move, mouse up, text selection) leaves
  the four annotation lists as they are or appends one entity at the end of one of
  them; over any sequence of pointer events of a page view the lists only grow at the
  end, so no entity is changed or removed.
\<close>

theorem lists_append_only:
  "lists_step st (fst (handleMouseDown fmt props h e st))
   \<and> lists_step st (handleMouseMove fmt props e st)
   \<and> lists_step st (handleMouseUp props e st)
   \<and> lists_step st (fst (handleTextSelection props h sel st))
   \<and> prefix (highlights st) (highlights (run_events fmt evs st))
   \<and> prefix (paths st) (paths (run_events fmt evs st))
   \<and> prefix (textAnnotations st) (textAnnotations (run_events fmt evs st))
   \<and> prefix (shapes st) (shapes (run_events fmt evs st))"
  using mouse_down_step mouse_move_step mouse_up_step text_selection_step
    run_events_prefix[of st fmt evs]
  by simp

theorem lists_append_only_witness:
  "textAnnotations (fst (handleMouseDown sample_fmt (sample_props ''text'' ''#FEF7CD'') sample_host
       (mouse_at 30 40) initial_page)) = [\<lparr>ta_x = 20, ta_y = 30, ta_text = ''note''\<rparr>]
   \<and> lists_step initial_page
       (fst (handleMouseDown sample_fmt (sample_props ''text'' ''#FEF7CD'') sample_host
          (mouse_at 30 40) initial_page))
   \<and> prefix (shapes initial_page)
       (shapes (run_events sample_fmt
          [(sample_props ''shape'' ''#FEF7CD'', MouseDown sample_host (mouse_at 30 40)),
           (sample_props ''shape'' ''#FEF7CD'', MouseUp (mouse_at 15 60))] initial_page))"
  using lists_append_only[of initial_page sample_fmt "sample_props ''text'' ''#FEF7CD''"
      sample_host "mouse_at 30 40" sample_selection
      "[(sample_props ''shape'' ''#FEF7CD'', MouseDown sample_host (mouse_at 30 40)),
        (sample_props ''shape'' ''#FEF7CD'', MouseUp (mouse_at 15 60))]"]
  by (simp add: handleMouseDown_def sample_props_def sample_host_def mouse_at_def
      sample_rect_def pointer_xy_def initial_page_def Let_def)

text \<open>
  C4. With the highlight tool and a selection that is not collapsed, a mouse down
  appends one highlight when the selection has at least one client rectangle, and
  none otherwise. Its rectangles are the client rectangles moved into the frame of the
  text layer, its colour is the selected one, and later pointer events of the page view
  keep it as it is.
\<close>

theorem highlight_from_selection:
  assumes "prop_activeTool props = ''highlight''"
    and "getSelection h = Some sel" and "\<not> isCollapsed sel"
  shows "highlights (fst (handleMouseDown fmt props h e st)) =
           (if clientRects sel = [] then highlights st
            else highlights st @
              [\<lparr>rects = map (\<lambda>r. \<lparr>hr_x = rc_left r - rc_left (textLayerRect h),
                                   hr_y = rc_top r - rc_top (textLayerRect h),
                                   hr_width = rc_width r, hr_height = rc_height r\<rparr>)
                          (clientRects sel),
                hl_color = prop_highlightColor props\<rparr>])
         \<and> prefix (highlights (fst (handleMouseDown fmt props h e st)))
             (highlights (run_events fmt evs (fst (handleMouseDown fmt props h e st))))"
proof -
  have "map (to_layer (textLayerRect h)) (clientRects sel) =
      map (\<lambda>r. \<lparr>hr_x = rc_left r - rc_left (textLayerRect h),
                hr_y = rc_top r - rc_top (textLayerRect h),
                hr_width = rc_width r, hr_height = rc_height r\<rparr>) (clientRects sel)"
    by (simp add: to_layer_def)
  then have "highlights (fst (handleMouseDown fmt props h e st)) =
           (if clientRects sel = [] then highlights st
            else highlights st @
              [\<lparr>rects = map (\<lambda>r. \<lparr>hr_x = rc_left r - rc_left (textLayerRect h),
                                   hr_y = rc_top r - rc_top (textLayerRect h),
                                   hr_width = rc_width r, hr_height = rc_height r\<rparr>)
                          (clientRects sel),
                hl_color = prop_highlightColor props\<rparr>])"
    using assms by (simp add: handleMouseDown_def handleTextSelection_def Let_def)
  then show ?thesis
    using run_events_prefix[of "fst (handleMouseDown fmt props h e st)" fmt evs] by simp
qed

theorem highlight_from_selection_witness:
  "prop_activeTool (sample_props ''highlight'' ''#F2FCE2'') = ''highlight''
   \<and> getSelection sample_host = Some sample_selection
   \<and> \<not> isCollapsed sample_selection
   \<and> highlights (fst (handleMouseDown sample_fmt (sample_props ''highlight'' ''#F2FCE2'')
        sample_host (mouse_at 30 40) initial_page)) =
       [\<lparr>rects = [\<lparr>hr_x = 20, hr_y = 40, hr_width = 100, hr_height = 12\<rparr>],
         hl_color = ''#F2FCE2''\<rparr>]"
proof -
  have a: "prop_activeTool (sample_props ''highlight'' ''#F2FCE2'') = ''highlight''"
    by (simp add: sample_props_def)
  have b: "getSelection sample_host = Some sample_selection"
    by (simp add: sample_host_def)
  have c: "\<not> isCollapsed sample_selection"
    by (simp add: sample_selection_def)
  show ?thesis
    using a b c highlight_from_selection[OF a b c, of sample_fmt "mouse_at 30 40" initial_page "[]"]
    by (simp add: sample_selection_def sample_host_def sample_rect_def sample_props_def
        initial_page_def)
qed

text \<open>
  What a pen stroke stores. After the mouse down, the moves \<open>ms1\<close> are rendered,
  the moves \<open>ms2\<close> are not rendered before the mouse up: the stored path has the point
  of the mouse down and the points of \<open>ms1\<close>, and none of \<open>ms2\<close>.
\<close>

lemma pen_stroke_stored_path:
  assumes "prop_activeTool pd = ''pen''"
    and "\<forall>pm \<in> set ms1. prop_activeTool (fst pm) = ''pen''"
    and "\<forall>pm \<in> set ms2. prop_activeTool (fst pm) = ''pen''"
    and "prop_activeTool pu = ''pen''"
  shows "paths (dispatch fmt pu (MouseUp e1)
                  (run_events fmt (as_moves ms2)
                     (dispatch fmt pr Render
                        (run_events fmt (as_moves ms1)
                           (dispatch fmt pd (MouseDown h e0) st))))) =
         paths st @
           [\<lparr>path = path_of_points fmt (pointer_xy e0 # map (\<lambda>pm. pointer_xy (snd pm)) ms1),
             path_color = prop_highlightColor pu, path_type = ''pen''\<rparr>]"
proof -
  define m where "m = ''M '' @ fmt (fst (pointer_xy e0)) @ '' '' @ fmt (snd (pointer_xy e0))"
  define d where "d = fst (handleMouseDown fmt pd h e0 st)"
  define s0 where "s0 = dispatch fmt pd (MouseDown h e0) st"
  define s1 where "s1 = run_events fmt (as_moves ms1) s0"
  define s2 where "s2 = dispatch fmt pr Render s1"
  define s3 where "s3 = run_events fmt (as_moves ms2) s2"
  have d: "pathUpdates d = pathUpdates st @ [SetPath m]" "isDrawing d" "paths d = paths st"
    using assms(1) by (simp_all add: d_def m_def handleMouseDown_def Let_def)
  have "s0 = commit d"
    by (simp add: s0_def d_def)
  then have s0: "currentPath s0 = m" "pathUpdates s0 = []" "isDrawing s0" "paths s0 = paths st"
    using d(2,3) commit_after_set[OF d(1)] by (simp_all add: commit_frame)
  have "s1 = s0\<lparr>pathUpdates := pathUpdates s0 @
      map (\<lambda>pm. AppendPath (line_to fmt (pointer_xy (snd pm)))) ms1\<rparr>"
    unfolding s1_def using pen_moves_queue[OF s0(3) assms(2)] .
  then have s1: "currentPath s1 = m" "isDrawing s1" "paths s1 = paths st"
    "pathUpdates s1 = map (\<lambda>pm. AppendPath (line_to fmt (pointer_xy (snd pm)))) ms1"
    using s0 by simp_all
  have "s2 = commit s1"
    by (simp add: s2_def)
  then have s2: "currentPath s2 = m @ concat (map (\<lambda>pm. line_to fmt (pointer_xy (snd pm))) ms1)"
    "isDrawing s2" "paths s2 = paths st"
    using s1 by (simp_all add: commit_def commit_appends)
  have "s3 = s2\<lparr>pathUpdates := pathUpdates s2 @
      map (\<lambda>pm. AppendPath (line_to fmt (pointer_xy (snd pm)))) ms2\<rparr>"
    unfolding s3_def using pen_moves_queue[OF s2(2) assms(3)] .
  then have s3: "currentPath s3 = m @ concat (map (\<lambda>pm. line_to fmt (pointer_xy (snd pm))) ms1)"
    "isDrawing s3" "paths s3 = paths st"
    using s2 by simp_all
  have cp: "currentPath s3 =
      path_of_points fmt (pointer_xy e0 # map (\<lambda>pm. pointer_xy (snd pm)) ms1)"
    using s3(1) by (simp add: m_def comp_def)
  have "paths (handleMouseUp pu e1 s3) = paths st @
      [\<lparr>path = currentPath s3, path_color = prop_highlightColor pu, path_type = ''pen''\<rparr>]"
    using assms(4) s3(2,3) by (simp add: handleMouseUp_def Let_def)
  then have "paths (dispatch fmt pu (MouseUp e1) s3) = paths st @
      [\<lparr>path = path_of_points fmt (pointer_xy e0 # map (\<lambda>pm. pointer_xy (snd pm)) ms1),
        path_color = prop_highlightColor pu, path_type = ''pen''\<rparr>]"
    using cp by (simp add: commit_frame)
  then show ?thesis
    unfolding s3_def s2_def s1_def s0_def .
qed

text \<open>
  C7, where the code misses it. With the pen tool: a mouse down at \<open>(20, 30)\<close>, a
  mouse move to \<open>(30, 30)\<close> whose update is not rendered yet, and the mouse up. The
  handler of the mouse up stores the \<open>currentPath\<close> its render captured, which has the
  point of the mouse down only; the path data of both points is another string.
\<close>

theorem pen_stroke_drops_unrendered_move:
  "paths (run_events sample_fmt
      [(sample_props ''pen'' ''#FEF7CD'', MouseDown sample_host (mouse_at 30 40)),
       (sample_props ''pen'' ''#FEF7CD'', MouseMove (mouse_at 40 40)),
       (sample_props ''pen'' ''#FEF7CD'', MouseUp (mouse_at 40 40))] initial_page) =
     [\<lparr>path = ''M 20 30'', path_color = ''#FEF7CD'', path_type = ''pen''\<rparr>]
   \<and> path_of_points sample_fmt [pointer_xy (mouse_at 30 40), pointer_xy (mouse_at 40 40)]
       = ''M 20 30 L 30 30''"
  by (simp add: handleMouseDown_def handleMouseMove_def handleMouseUp_def commit_def
      pointer_xy_def mouse_at_def sample_rect_def sample_fmt_def sample_props_def
      initial_page_def line_to_def Let_def)

theorem pen_stroke_drops_unrendered_move_witness:
  "map path (paths (run_events sample_fmt
      [(sample_props ''pen'' ''#FEF7CD'', MouseDown sample_host (mouse_at 30 40)),
       (sample_props ''pen'' ''#FEF7CD'', MouseMove (mouse_at 40 40)),
       (sample_props ''pen'' ''#FEF7CD'', MouseUp (mouse_at 40 40))] initial_page))
   \<noteq> [path_of_points sample_fmt [pointer_xy (mouse_at 30 40), pointer_xy (mouse_at 40 40)]]"
  using pen_stroke_drops_unrendered_move by simp

text \<open>
  C10. A drag with the shape tool from \<open>(x0, y0)\<close> to \<open>(x1, y1)\<close> appends the
  rectangle with corner \<open>(min x0 x1, min y0 y1)\<close>, width \<open>|x1 - x0|\<close> and height
  \<open>|y1 - y0|\<close>, whatever the direction of the drag; width and height are not negative.
\<close>

theorem rectangle_normalized:
  assumes "prop_activeTool pd = ''shape''" and "prop_activeTool pu = ''shape''"
    and "pointer_xy e0 = (x0, y0)" and "pointer_xy e1 = (x1, y1)"
  shows "shapes (handleMouseUp pu e1
                   (run_events fmt (as_moves ms) (fst (handleMouseDown fmt pd h e0 st)))) =
         shapes st @ [\<lparr>sh_type = ''rectangle'', sh_x = min x0 x1, sh_y = min y0 y1,
                        sh_width = \<bar>x1 - x0\<bar>, sh_height = \<bar>y1 - y0\<bar>,
                        sh_color = prop_highlightColor pu\<rparr>]
       \<and> 0 \<le> sh_width (last (shapes (handleMouseUp pu e1
                   (run_events fmt (as_moves ms) (fst (handleMouseDown fmt pd h e0 st))))))
       \<and> 0 \<le> sh_height (last (shapes (handleMouseUp pu e1
                   (run_events fmt (as_moves ms) (fst (handleMouseDown fmt pd h e0 st))))))"
proof -
  let ?s0 = "fst (handleMouseDown fmt pd h e0 st)"
  let ?s1 = "run_events fmt (as_moves ms) ?s0"
  have s0: "isDrawing ?s0" "startPoint ?s0 = (x0, y0)" "shapes ?s0 = shapes st"
    using assms(1,3) by (simp_all add: handleMouseDown_def Let_def)
  have s1: "isDrawing ?s1" "startPoint ?s1 = (x0, y0)" "shapes ?s1 = shapes st"
    using s0 moves_frame[of fmt ms ?s0] by simp_all
  have "shapes (handleMouseUp pu e1 ?s1) =
      shapes st @ [\<lparr>sh_type = ''rectangle'', sh_x = min x0 x1, sh_y = min y0 y1,
                     sh_width = \<bar>x1 - x0\<bar>, sh_height = \<bar>y1 - y0\<bar>,
                     sh_color = prop_highlightColor pu\<rparr>]"
    using assms(2,4) s1 by (simp add: handleMouseUp_def Let_def min.commute)
  then show ?thesis by simp
qed

theorem rectangle_normalized_witness:
  "shapes (handleMouseUp (sample_props ''shape'' ''#FEF7CD'') (mouse_at 15 60)
      (run_events sample_fmt (as_moves [(sample_props ''shape'' ''#FEF7CD'', mouse_at 20 50)])
         (fst (handleMouseDown sample_fmt (sample_props ''shape'' ''#FEF7CD'') sample_host
            (mouse_at 30 40) initial_page)))) = [sample_shape]"
proof -
  have a: "prop_activeTool (sample_props ''shape'' ''#FEF7CD'') = ''shape''"
    by (simp add: sample_props_def)
  have b: "pointer_xy (mouse_at 30 40) = (20, 30)" "pointer_xy (mouse_at 15 60) = (5, 50)"
    by (simp_all add: pointer_xy_def mouse_at_def sample_rect_def)
  show ?thesis
    using rectangle_normalized[OF a a b, of sample_fmt
        "[(sample_props ''shape'' ''#FEF7CD'', mouse_at 20 50)]" sample_host initial_page]
    by (simp add: sample_shape_def sample_props_def initial_page_def)
qed

section \<open>Properties of rendering\<close>

lemma renderPage_resets:
  assumes "prop_pdfDocument props = Some d" and "canvasRef refs" and "textLayerRef refs"
  shows "highlights (fst (renderPage lib refs props st)) = []"
    "paths (fst (renderPage lib refs props st)) = []"
    "textAnnotations (fst (renderPage lib refs props st)) = []"
    "shapes (fst (renderPage lib refs props st)) = []"
  using assms by (simp_all add: renderPage_def Let_def split: page_load.splits)

lemma collect_text_eq:
  "collect_text items (t, l) =
     (t @ page_text_of items,
      l @ concat (map (\<lambda>i. case i of TextItem s \<Rightarrow> [s] | TextMarkedContent \<Rightarrow> []) items))"
proof (induction items arbitrary: t l)
  case Nil
  then show ?case by (simp add: page_text_of_def)
next
  case (Cons i items)
  then show ?case by (cases i) (simp_all add: page_text_of_def)
qed

text \<open>
  The props the viewer passes to the page always have a document and the callback, so
  the document part of the guard of \<open>renderPage\<close> holds whenever the page is mounted.
\<close>

lemma page_props_of_guard:
  assumes "page_props_of cb v = Some props"
  shows "prop_pdfDocument props = pdfDocument v" and "pdfDocument v \<noteq> None"
    and "prop_onPageRendered props = Some cb" and "prop_pageNumber props = currentPage v"
    and "prop_scale props = scale v"
  using assms by (auto simp: page_props_of_def split: option.splits)

text \<open>
  C2. When the page is mounted, and whenever the document, the page number or the
  scale changes, \<open>renderPage\<close> runs, and if the document and both layers are there
  it empties the four annotation lists before it asks the library for the page: they
  are empty whatever the library answers.
\<close>

theorem render_resets_annotations:
  assumes "prop_pdfDocument new = Some d" and "canvasRef refs" and "textLayerRef refs"
    and "map_option doc_ref (prop_pdfDocument old) \<noteq> Some (doc_ref d)
         \<or> prop_pageNumber old \<noteq> prop_pageNumber new
         \<or> prop_scale old \<noteq> prop_scale new"
  shows "highlights (fst (rerender lib refs old new st)) = []
       \<and> paths (fst (rerender lib refs old new st)) = []
       \<and> textAnnotations (fst (rerender lib refs old new st)) = []
       \<and> shapes (fst (rerender lib refs old new st)) = []
       \<and> highlights (fst (renderPage lib refs new st)) = []
       \<and> paths (fst (renderPage lib refs new st)) = []
       \<and> textAnnotations (fst (renderPage lib refs new st)) = []
       \<and> shapes (fst (renderPage lib refs new st)) = []"
proof -
  have "deps_changed old new"
    using assms(1,4) by (auto simp: deps_changed_def)
  then have "rerender lib refs old new st = renderPage lib refs new st"
    by (simp add: rerender_def)
  then show ?thesis
    using renderPage_resets[OF assms(1-3)] by simp
qed

theorem render_resets_annotations_witness:
  "prop_pageNumber (sample_props ''shape'' ''#FEF7CD'') \<noteq> 3
   \<and> shapes (fst (rerender sample_lib sample_refs (sample_props ''shape'' ''#FEF7CD'')
        ((sample_props ''shape'' ''#FEF7CD'')\<lparr>prop_pageNumber := 3\<rparr>)
        (initial_page\<lparr>shapes := [sample_shape]\<rparr>))) = []"
proof -
  have a: "prop_pdfDocument ((sample_props ''shape'' ''#FEF7CD'')\<lparr>prop_pageNumber := 3\<rparr>)
      = Some sample_doc"
    by (simp add: sample_props_def)
  have b: "canvasRef sample_refs" "textLayerRef sample_refs"
    by (simp_all add: sample_refs_def)
  have c: "prop_pageNumber (sample_props ''shape'' ''#FEF7CD'') \<noteq> 3"
    by (simp add: sample_props_def)
  then have d: "map_option doc_ref (prop_pdfDocument (sample_props ''shape'' ''#FEF7CD''))
        \<noteq> Some (doc_ref sample_doc)
      \<or> prop_pageNumber (sample_props ''shape'' ''#FEF7CD'')
        \<noteq> prop_pageNumber ((sample_props ''shape'' ''#FEF7CD'')\<lparr>prop_pageNumber := 3\<rparr>)
      \<or> prop_scale (sample_props ''shape'' ''#FEF7CD'')
        \<noteq> prop_scale ((sample_props ''shape'' ''#FEF7CD'')\<lparr>prop_pageNumber := 3\<rparr>)"
    by simp
  show ?thesis
    using c render_resets_annotations[OF a b d, of sample_lib
        "initial_page\<lparr>shapes := [sample_shape]\<rparr>"]
    by simp
qed

text \<open>
  C3, as the code has it. When the scale changes (document and layers being there),
  the annotations made before are neither kept nor transformed: the render at the new
  scale empties all four lists, so none is left in the old scale's pixel space.
\<close>

theorem rescale_discards_annotations:
  assumes "prop_pdfDocument new = Some d" and "canvasRef refs" and "textLayerRef refs"
    and "prop_scale new \<noteq> prop_scale old"
  shows "highlights (fst (rerender lib refs old new st)) = []
       \<and> paths (fst (rerender lib refs old new st)) = []
       \<and> textAnnotations (fst (rerender lib refs old new st)) = []
       \<and> shapes (fst (rerender lib refs old new st)) = []"
proof -
  have "deps_changed old new"
    using assms(4) by (auto simp: deps_changed_def)
  then have "rerender lib refs old new st = renderPage lib refs new st"
    by (simp add: rerender_def)
  then show ?thesis
    using renderPage_resets[OF assms(1-3)] by simp
qed

theorem rescale_discards_annotations_witness:
  "prop_scale ((sample_props ''shape'' ''#FEF7CD'')\<lparr>prop_scale := 2\<rparr>)
     \<noteq> prop_scale (sample_props ''shape'' ''#FEF7CD'')
   \<and> shapes (fst (rerender sample_lib sample_refs (sample_props ''shape'' ''#FEF7CD'')
        ((sample_props ''shape'' ''#FEF7CD'')\<lparr>prop_scale := 2\<rparr>)
        (initial_page\<lparr>shapes := [sample_shape]\<rparr>))) = []"
proof -
  have a: "prop_pdfDocument ((sample_props ''shape'' ''#FEF7CD'')\<lparr>prop_scale := 2\<rparr>)
      = Some sample_doc"
    by (simp add: sample_props_def)
  have b: "canvasRef sample_refs" "textLayerRef sample_refs"
    by (simp_all add: sample_refs_def)
  have c: "prop_scale ((sample_props ''shape'' ''#FEF7CD'')\<lparr>prop_scale := 2\<rparr>)
     \<noteq> prop_scale (sample_props ''shape'' ''#FEF7CD'')"
    by (simp add: sample_props_def)
  show ?thesis
    using c rescale_discards_annotations[OF a b c, of sample_lib
        "initial_page\<lparr>shapes := [sample_shape]\<rparr>"]
    by simp
qed

text \<open>
  C3, as stated, fails: a rectangle drawn at scale 1.5 is not there any more after
  the page was rendered again at scale 2.
\<close>

theorem rescale_keeps_annotations_counterexample:
  "shapes (fst (rerender sample_lib sample_refs (sample_props ''shape'' ''#FEF7CD'')
             ((sample_props ''shape'' ''#FEF7CD'')\<lparr>prop_scale := 2\<rparr>)
             (initial_page\<lparr>shapes := [sample_shape]\<rparr>)))
   \<noteq> shapes (initial_page\<lparr>shapes := [sample_shape]\<rparr>)"
  by (simp add: rerender_def deps_changed_def renderPage_def sample_props_def sample_refs_def
      sample_lib_def sample_doc_def initial_page_def Let_def)

text \<open>
  C6. When a render of page \<open>p\<close> succeeds and the callback is given,
  \<open>onPageRendered\<close> is called once, with \<open>p\<close> and the page text. The viewer stores
  the text under \<open>p\<close> and leaves the texts of the other pages as they are; the
  assistant, when open, gets the text stored for the current page, or the empty string.
\<close>

theorem page_text_published:
  assumes "prop_pdfDocument props = Some d" and "canvasRef refs" and "textLayerRef refs"
    and "lib d (prop_pageNumber props) (prop_scale props) = Rendered vw vh items"
    and "prop_onPageRendered props = Some cb"
  shows "snd (renderPage lib refs props st) =
           [CallPageRendered cb (prop_pageNumber props) (page_text_of items)]
       \<and> pageTexts (deliver opr (snd (renderPage lib refs props st)) v) (prop_pageNumber props)
           = Some (page_text_of items)
       \<and> (\<forall>q. q \<noteq> prop_pageNumber props \<longrightarrow>
             pageTexts (deliver opr (snd (renderPage lib refs props st)) v) q = pageTexts v q)
       \<and> ai_props_of (deliver opr (snd (renderPage lib refs props st)) v) =
           (if isAIOpen v
            then Some \<lparr>ai_pageText =
                         (if currentPage v = prop_pageNumber props then page_text_of items
                          else case pageTexts v (currentPage v) of None \<Rightarrow> [] | Some t \<Rightarrow> t),
                       ai_currentPage = currentPage v, ai_totalPages = totalPages v\<rparr>
            else None)"
proof -
  have eff: "snd (renderPage lib refs props st) =
      [CallPageRendered cb (prop_pageNumber props) (page_text_of items)]"
    using assms by (simp add: renderPage_def Let_def collect_text_eq)
  have del: "deliver opr (snd (renderPage lib refs props st)) v =
      v\<lparr>pageTexts := (pageTexts v)(prop_pageNumber props \<mapsto> page_text_of items)\<rparr>"
    by (simp add: eff handlePageRendered_def)
  show ?thesis
    unfolding del using eff
    by (simp add: ai_props_of_def getCurrentPageText_def)
qed

theorem page_text_published_witness:
  "snd (renderPage sample_lib sample_refs (sample_props [] ''#FEF7CD'') initial_page) =
     [CallPageRendered 4 2 ''Hello world '']
   \<and> pageTexts (deliver None
        (snd (renderPage sample_lib sample_refs (sample_props [] ''#FEF7CD'') initial_page))
        initial_viewer) 2 = Some ''Hello world ''
   \<and> pageTexts (deliver None
        (snd (renderPage sample_lib sample_refs (sample_props [] ''#FEF7CD'') initial_page))
        initial_viewer) 1 = None"
proof -
  have a: "prop_pdfDocument (sample_props [] ''#FEF7CD'') = Some sample_doc"
    by (simp add: sample_props_def)
  have b: "canvasRef sample_refs" "textLayerRef sample_refs"
    by (simp_all add: sample_refs_def)
  have c: "sample_lib sample_doc (prop_pageNumber (sample_props [] ''#FEF7CD''))
      (prop_scale (sample_props [] ''#FEF7CD'')) =
      Rendered (612 * 1.5) (792 * 1.5) [TextItem ''Hello'', TextMarkedContent, TextItem ''world'']"
    by (simp add: sample_lib_def sample_props_def sample_doc_def)
  have d: "prop_onPageRendered (sample_props [] ''#FEF7CD'') = Some 4"
    by (simp add: sample_props_def)
  show ?thesis
    using page_text_published[where props = "sample_props [] ''#FEF7CD''" and d = sample_doc
        and refs = sample_refs and lib = sample_lib and cb = 4 and st = initial_page
        and opr = None and v = initial_viewer, OF a b c d]
    by (simp add: page_text_of_def sample_props_def initial_viewer_def handlePageRendered_def)
qed

section \<open>Properties of the viewer\<close>

lemma goToPage_fields:
  "totalPages (goToPage n v) = totalPages v"
  "currentPage (goToPage n v) = (if 1 \<le> n \<and> n \<le> totalPages v then n else currentPage v)"
  by (simp_all add: goToPage_def)

lemma viewer_step_in_range:
  assumes "page_in_range v" and "loads_have_pages [ev]"
  shows "page_in_range (viewer_step fmti ev v)"
proof (cases ev)
  case (FileChosen f)
  then show ?thesis
    using assms by (auto simp: page_in_range_def loadPDF_def split: option.splits)
next
  case (PageInput r)
  then show ?thesis
    using assms by (simp add: page_in_range_def goToPage_fields)
next
  case PreviousPage
  then show ?thesis
    using assms by (simp add: page_in_range_def handlePreviousPage_def goToPage_fields)
next
  case NextPage
  then show ?thesis
    using assms by (simp add: page_in_range_def handleNextPage_def goToPage_fields)
qed (use assms in \<open>simp_all add: page_in_range_def handleZoomIn_def handleZoomOut_def
      handleToggleAI_def handlePageRendered_def\<close>)

lemma loads_have_pages_Cons:
  "loads_have_pages (ev # evs) = (loads_have_pages [ev] \<and> loads_have_pages evs)"
  by (cases ev) simp_all

lemma run_viewer_in_range:
  "page_in_range v \<Longrightarrow> loads_have_pages evs \<Longrightarrow> page_in_range (run_viewer fmti evs v)"
proof (induction evs arbitrary: v)
  case Nil
  then show ?case by simp
next
  case (Cons ev evs)
  from Cons.prems(2) have one: "loads_have_pages [ev]" and rest: "loads_have_pages evs"
    using loads_have_pages_Cons[of ev evs] by simp_all
  have "page_in_range (viewer_step fmti ev v)"
    using viewer_step_in_range[OF Cons.prems(1) one] .
  then show ?case
    using Cons.IH rest by simp
qed

text \<open>
  C8. \<open>goToPage n\<close> makes \<open>n\<close> the current page when \<open>1 \<le> n \<le> totalPages\<close> and
  changes nothing otherwise. After a document with at least one page was loaded, the
  current page is 1, and it stays between 1 and \<open>totalPages\<close> through every later
  event (every later document loaded having a page); there, previous and next move
  it by one, or leave it where it is at the first and the last page.
\<close>

theorem current_page_in_range:
  "currentPage (goToPage n v) = (if 1 \<le> n \<and> n \<le> totalPages v then n else currentPage v)
   \<and> totalPages (goToPage n v) = totalPages v
   \<and> (file_load f = Some pdf \<and> 1 \<le> numPages pdf \<and> loads_have_pages evs \<longrightarrow>
        currentPage (fst (loadPDF fmti f v)) = 1
        \<and> 1 \<le> currentPage (run_viewer fmti evs (fst (loadPDF fmti f v)))
        \<and> currentPage (run_viewer fmti evs (fst (loadPDF fmti f v)))
            \<le> totalPages (run_viewer fmti evs (fst (loadPDF fmti f v)))
        \<and> currentPage (handlePreviousPage (run_viewer fmti evs (fst (loadPDF fmti f v)))) =
            (if 1 < currentPage (run_viewer fmti evs (fst (loadPDF fmti f v)))
             then currentPage (run_viewer fmti evs (fst (loadPDF fmti f v))) - 1
             else currentPage (run_viewer fmti evs (fst (loadPDF fmti f v))))
        \<and> currentPage (handleNextPage (run_viewer fmti evs (fst (loadPDF fmti f v)))) =
            (if currentPage (run_viewer fmti evs (fst (loadPDF fmti f v)))
                  < totalPages (run_viewer fmti evs (fst (loadPDF fmti f v)))
             then currentPage (run_viewer fmti evs (fst (loadPDF fmti f v))) + 1
             else currentPage (run_viewer fmti evs (fst (loadPDF fmti f v)))))"
proof -
  let ?v0 = "fst (loadPDF fmti f v)"
  let ?v1 = "run_viewer fmti evs ?v0"
  have go: "currentPage (goToPage n v) =
      (if 1 \<le> n \<and> n \<le> totalPages v then n else currentPage v)"
    "totalPages (goToPage n v) = totalPages v"
    by (simp_all add: goToPage_fields)
  have after: "currentPage ?v0 = 1 \<and> 1 \<le> currentPage ?v1 \<and> currentPage ?v1 \<le> totalPages ?v1
      \<and> currentPage (handlePreviousPage ?v1) =
          (if 1 < currentPage ?v1 then currentPage ?v1 - 1 else currentPage ?v1)
      \<and> currentPage (handleNextPage ?v1) =
          (if currentPage ?v1 < totalPages ?v1 then currentPage ?v1 + 1 else currentPage ?v1)"
    if load: "file_load f = Some pdf" and pages: "1 \<le> numPages pdf"
      and later: "loads_have_pages evs"
  proof -
    have v0: "currentPage ?v0 = 1" "page_in_range ?v0"
      using load pages by (simp_all add: loadPDF_def page_in_range_def)
    have v1: "1 \<le> currentPage ?v1" "currentPage ?v1 \<le> totalPages ?v1"
      using run_viewer_in_range[OF v0(2) later, of fmti] by (simp_all add: page_in_range_def)
    have prev: "currentPage (handlePreviousPage ?v1) =
        (if 1 < currentPage ?v1 then currentPage ?v1 - 1 else currentPage ?v1)"
      using v1 by (simp add: handlePreviousPage_def goToPage_fields)
    have nxt: "currentPage (handleNextPage ?v1) =
        (if currentPage ?v1 < totalPages ?v1 then currentPage ?v1 + 1 else currentPage ?v1)"
      using v1 by (simp add: handleNextPage_def goToPage_fields)
    show ?thesis
      using v0(1) v1 prev nxt by simp
  qed
  show ?thesis
    using go after by blast
qed

theorem current_page_in_range_witness:
  "currentPage (goToPage 7 initial_viewer) = 1
   \<and> file_load sample_file = Some sample_doc \<and> 1 \<le> numPages sample_doc
   \<and> loads_have_pages [NextPage, NextPage, NextPage, PreviousPage, PageInput (Some 9)]
   \<and> currentPage (run_viewer sample_fmti
        [NextPage, NextPage, NextPage, PreviousPage, PageInput (Some 9)]
        (fst (loadPDF sample_fmti sample_file initial_viewer))) = 2
   \<and> totalPages (run_viewer sample_fmti
        [NextPage, NextPage, NextPage, PreviousPage, PageInput (Some 9)]
        (fst (loadPDF sample_fmti sample_file initial_viewer))) = 3"
proof -
  have a: "file_load sample_file = Some sample_doc"
    by (simp add: sample_file_def)
  have b: "1 \<le> numPages sample_doc"
    by (simp add: sample_doc_def)
  have c: "loads_have_pages [NextPage, NextPage, NextPage, PreviousPage, PageInput (Some 9)]"
    by simp
  show ?thesis
    using a b c current_page_in_range[of 7 initial_viewer sample_file sample_doc
        "[NextPage, NextPage, NextPage, PreviousPage, PageInput (Some 9)]" sample_fmti]
    by (simp add: loadPDF_def sample_file_def sample_doc_def initial_viewer_def
        handleNextPage_def handlePreviousPage_def goToPage_def page_input_def)
qed

text \<open>
  C9. A load that fails leaves the viewer's state as it was (document, page count and
  current page included); it logs the error and shows one toast, the error. A load
  that succeeds sets the document, its page count and page 1.
\<close>

theorem load_outcomes:
  "(file_load f = None \<longrightarrow>
      fst (loadPDF fmti f v) = v
      \<and> snd (loadPDF fmti f v) =
          [LogError,
           ShowToast \<lparr>title = ''Error'',
                      description = ''Failed to load PDF file. Please try another file.'',
                      destructive = True\<rparr>])
   \<and> (file_load f = Some pdf \<longrightarrow>
      pdfDocument (fst (loadPDF fmti f v)) = Some pdf
      \<and> totalPages (fst (loadPDF fmti f v)) = numPages pdf
      \<and> currentPage (fst (loadPDF fmti f v)) = 1)"
  by (simp add: loadPDF_def)

theorem load_outcomes_witness:
  "file_load (sample_file\<lparr>file_load := None\<rparr>) = None
   \<and> fst (loadPDF sample_fmti (sample_file\<lparr>file_load := None\<rparr>) initial_viewer) = initial_viewer
   \<and> file_load sample_file = Some sample_doc
   \<and> pdfDocument (fst (loadPDF sample_fmti sample_file initial_viewer)) = Some sample_doc
   \<and> totalPages (fst (loadPDF sample_fmti sample_file initial_viewer)) = 3
   \<and> currentPage (fst (loadPDF sample_fmti sample_file initial_viewer)) = 1"
  using load_outcomes[of "sample_file\<lparr>file_load := None\<rparr>" sample_fmti initial_viewer sample_doc]
    load_outcomes[of sample_file sample_fmti initial_viewer sample_doc]
  by (simp add: sample_file_def sample_doc_def)

section \<open>Properties of the assistant\<close>

text \<open>
  C5. A submission either does nothing (a blank query outside the summary tab) or
  waits 1000 milliseconds and then sets the response to the text \<open>mockResponse\<close>
  builds from the tab, the page number and the query. Two submissions that agree on
  these three do the same, whatever the page texts are.
\<close>

theorem response_is_canned:
  "(ai_activeTab st = ai_activeTab st' \<and> query st = query st'
      \<and> ai_currentPage props = ai_currentPage props'
      \<longrightarrow> handleQuerySubmit fmti props st = handleQuerySubmit fmti props' st')
   \<and> handleQuerySubmit fmti props st =
       (if js_trim (query st) = [] \<and> ai_activeTab st \<noteq> ''summary'' then []
        else [SetIsLoading True, AwaitTimeout 1000,
              SetResponse (mockResponse fmti (ai_currentPage props) (query st) (ai_activeTab st)),
              SetIsLoading False])
   \<and> response (run_actions (handleQuerySubmit fmti props st) st) =
       (if js_trim (query st) = [] \<and> ai_activeTab st \<noteq> ''summary'' then response st
        else mockResponse fmti (ai_currentPage props) (query st) (ai_activeTab st))
   \<and> delay_before_response (handleQuerySubmit fmti props st) =
       (if js_trim (query st) = [] \<and> ai_activeTab st \<noteq> ''summary'' then None
        else Some 1000)"
  by (auto simp: handleQuerySubmit_def mockAIResponse_def Let_def)

theorem response_is_canned_witness:
  "handleQuerySubmit sample_fmti (sample_ai_props ''first text'') (sample_ai_state ''summary'' [])
     = handleQuerySubmit sample_fmti (sample_ai_props ''other text'') (sample_ai_state ''summary'' [])
   \<and> delay_before_response
       (handleQuerySubmit sample_fmti (sample_ai_props ''first text'') (sample_ai_state ''summary'' []))
     = Some 1000
   \<and> handleQuerySubmit sample_fmti (sample_ai_props ''first text'') (sample_ai_state ''translate'' '' '')
     = []"
  using response_is_canned[of "sample_ai_state ''summary'' []" "sample_ai_state ''summary'' []"
      "sample_ai_props ''first text''" "sample_ai_props ''other text''" sample_fmti]
    response_is_canned[of "sample_ai_state ''translate'' '' ''" "sample_ai_state ''translate'' '' ''"
      "sample_ai_props ''first text''" "sample_ai_props ''first text''" sample_fmti]
  by (simp add: sample_ai_state_def sample_ai_props_def js_trim_def is_js_space_def
      handleQuerySubmit_def mockAIResponse_def)

end
